theory Spec2Isabelle
  imports Main "HOL-Library.Word"
begin

section \<open>Errors\<close>

text \<open>
  The sources raise JavaScript exceptions. \<^verbatim>\<open>throw new Error(msg)\<close> is the value
  \<open>Error msg\<close>; the error code \<^verbatim>\<open>ERROR_CODE.Decrypto_ERROR\<close>, which
  \<^verbatim>\<open>test/scrypt.test.ts\<close> expects from a failed check of a decrypted key, is
  \<open>Decrypto_ERROR\<close>; a \<^verbatim>\<open>TypeError\<close> of the JavaScript run time (a call of
  something that is no function, a property read from \<^verbatim>\<open>null\<close>) is
  \<open>TypeError msg\<close>. A function that can throw returns \<open>error + 'a\<close>.

  The specification names error kinds; the code distinguishes them by message only.
  The abbreviations below give the message that stands for each kind.
\<close>

datatype error = Error string | TypeError string | Decrypto_ERROR

abbreviation SchemeNotFoundError :: error where
  "SchemeNotFoundError \<equiv> Error ''Enum value not found''"

abbreviation SchemeMismatchError :: error where
  "SchemeMismatchError \<equiv> Error ''Signature schema does not match key type.''"

abbreviation UnsupportedAlgorithmError :: error where
  "UnsupportedAlgorithmError \<equiv> Error ''Unsupported signature schema.''"

abbreviation UnsupportedSchemeError :: error where
  "UnsupportedSchemeError \<equiv> Error ''Unsupported signature schema.''"

abbreviation DecryptionError :: error where
  "DecryptionError \<equiv> Decrypto_ERROR"


section \<open>SignatureScheme (src/crypto/SignatureScheme.ts)\<close>

text \<open>
  A scheme is an object with three fields. The JavaScript \<^verbatim>\<open>number\<close> field
  \<^verbatim>\<open>hex\<close> only ever holds integers here and is an \<open>int\<close>. The code compares
  scheme objects by reference (\<^verbatim>\<open>switch\<close>, \<^verbatim>\<open>===\<close>); the model compares the
  records, which agrees with it on the eleven static instances, since they differ
  pairwise in every field.
\<close>

record SignatureScheme =
  label :: string
  hex :: int
  labelJWS :: string

definition ECDSAwithSHA224 :: SignatureScheme where
  "ECDSAwithSHA224 = \<lparr>label = ''ECDSAwithSHA224'', hex = 0, labelJWS = ''ES224''\<rparr>"

definition ECDSAwithSHA256 :: SignatureScheme where
  "ECDSAwithSHA256 = \<lparr>label = ''ECDSAwithSHA256'', hex = 1, labelJWS = ''ES256''\<rparr>"

definition ECDSAwithSHA384 :: SignatureScheme where
  "ECDSAwithSHA384 = \<lparr>label = ''ECDSAwithSHA384'', hex = 2, labelJWS = ''ES384''\<rparr>"

definition ECDSAwithSHA512 :: SignatureScheme where
  "ECDSAwithSHA512 = \<lparr>label = ''ECDSAwithSHA512'', hex = 3, labelJWS = ''ES512''\<rparr>"

definition ECDSAwithSHA3_224 :: SignatureScheme where
  "ECDSAwithSHA3_224 = \<lparr>label = ''ECDSAwithSHA3-224'', hex = 4, labelJWS = ''ES3-224''\<rparr>"

definition ECDSAwithSHA3_256 :: SignatureScheme where
  "ECDSAwithSHA3_256 = \<lparr>label = ''ECDSAwithSHA3-256'', hex = 5, labelJWS = ''ES3-256''\<rparr>"

definition ECDSAwithSHA3_384 :: SignatureScheme where
  "ECDSAwithSHA3_384 = \<lparr>label = ''ECDSAwithSHA3-384'', hex = 6, labelJWS = ''ES3-384''\<rparr>"

definition ECDSAwithSHA3_512 :: SignatureScheme where
  "ECDSAwithSHA3_512 = \<lparr>label = ''ECDSAwithSHA3-512'', hex = 7, labelJWS = ''ES3-512''\<rparr>"

definition ECDSAwithRIPEMD160 :: SignatureScheme where
  "ECDSAwithRIPEMD160 = \<lparr>label = ''ECDSAwithRIPEMD160'', hex = 8, labelJWS = ''ER160''\<rparr>"

definition SM2withSM3 :: SignatureScheme where
  "SM2withSM3 = \<lparr>label = ''SM2withSM3'', hex = 9, labelJWS = ''SM''\<rparr>"

definition EDDSAwithSHA512 :: SignatureScheme where
  "EDDSAwithSHA512 = \<lparr>label = ''EDDSAwithSHA512'', hex = 10, labelJWS = ''EDS512''\<rparr>"

text \<open>
  The constructor pushes every new instance onto the static array
  \<^verbatim>\<open>SignatureScheme.values\<close>. The static initialisers run in the order of their
  declaration, so once the class is loaded the array holds the eleven instances in
  that order.
\<close>

definition SignatureScheme_new ::
  "string \<Rightarrow> int \<Rightarrow> string \<Rightarrow> SignatureScheme list \<Rightarrow> SignatureScheme \<times> SignatureScheme list" where
  "SignatureScheme_new l h j vals =
     (let this = \<lparr>label = l, hex = h, labelJWS = j\<rparr> in (this, vals @ [this]))"

definition SignatureScheme_values :: "SignatureScheme list" where
  "SignatureScheme_values =
     (let vals = [];
          vals = snd (SignatureScheme_new ''ECDSAwithSHA224'' 0 ''ES224'' vals);
          vals = snd (SignatureScheme_new ''ECDSAwithSHA256'' 1 ''ES256'' vals);
          vals = snd (SignatureScheme_new ''ECDSAwithSHA384'' 2 ''ES384'' vals);
          vals = snd (SignatureScheme_new ''ECDSAwithSHA512'' 3 ''ES512'' vals);
          vals = snd (SignatureScheme_new ''ECDSAwithSHA3-224'' 4 ''ES3-224'' vals);
          vals = snd (SignatureScheme_new ''ECDSAwithSHA3-256'' 5 ''ES3-256'' vals);
          vals = snd (SignatureScheme_new ''ECDSAwithSHA3-384'' 6 ''ES3-384'' vals);
          vals = snd (SignatureScheme_new ''ECDSAwithSHA3-512'' 7 ''ES3-512'' vals);
          vals = snd (SignatureScheme_new ''ECDSAwithRIPEMD160'' 8 ''ER160'' vals);
          vals = snd (SignatureScheme_new ''SM2withSM3'' 9 ''SM'' vals);
          vals = snd (SignatureScheme_new ''EDDSAwithSHA512'' 10 ''EDS512'' vals)
      in vals)"

text \<open>
  The three lookups read the static array, which is mutable state of the class: they
  take it as an argument. \<^verbatim>\<open>Array.prototype.find\<close> returns the first element that
  satisfies the predicate, or \<^verbatim>\<open>undefined\<close>; that is \<^const>\<open>find\<close>.
\<close>

definition fromHex :: "SignatureScheme list \<Rightarrow> int \<Rightarrow> error + SignatureScheme" where
  "fromHex vals h =
     (case find (\<lambda>v. hex v = h) vals of
        None \<Rightarrow> Inl (Error ''Enum value not found'')
      | Some item \<Rightarrow> Inr item)"

definition fromLabel :: "SignatureScheme list \<Rightarrow> string \<Rightarrow> error + SignatureScheme" where
  "fromLabel vals l =
     (case find (\<lambda>v. label v = l) vals of
        None \<Rightarrow> Inl (Error ''Enum value not found'')
      | Some item \<Rightarrow> Inr item)"

definition fromLabelJWS :: "SignatureScheme list \<Rightarrow> string \<Rightarrow> error + SignatureScheme" where
  "fromLabelJWS vals l =
     (case find (\<lambda>v. labelJWS v = l) vals of
        None \<Rightarrow> Inl (Error ''Enum value not found'')
      | Some item \<Rightarrow> Inr item)"


section \<open>Bytes and hex strings\<close>

type_synonym byte = "8 word"

text \<open>
  \<^verbatim>\<open>Buffer.toString('hex')\<close>: two lower-case hexadecimal digits for every byte.
\<close>

definition hexDigit :: "nat \<Rightarrow> char" where
  "hexDigit n = ''0123456789abcdef'' ! (n mod 16)"

definition byte2hex :: "byte \<Rightarrow> string" where
  "byte2hex b = [hexDigit (unat b div 16), hexDigit (unat b mod 16)]"

definition toString_hex :: "byte list \<Rightarrow> string" where
  "toString_hex bs = concat (map byte2hex bs)"

text \<open>
  Reading a hex string back, as \<^verbatim>\<open>Buffer.from(str, 'hex')\<close> does on a string of
  hexadecimal digit pairs; \<open>None\<close> for any other string.
\<close>

definition hexValue :: "char \<Rightarrow> nat option" where
  "hexValue c =
     (let n = (of_char c :: nat)
      in if 48 \<le> n \<and> n \<le> 57 then Some (n - 48)
         else if 97 \<le> n \<and> n \<le> 102 then Some (n - 87)
         else if 65 \<le> n \<and> n \<le> 70 then Some (n - 55)
         else None)"

fun parse_hex :: "string \<Rightarrow> byte list option" where
  "parse_hex [] = Some []"
| "parse_hex [c] = None"
| "parse_hex (a # b # rest) =
     (case hexValue a of
        None \<Rightarrow> None
      | Some x \<Rightarrow>
          (case hexValue b of
             None \<Rightarrow> None
           | Some y \<Rightarrow>
               (case parse_hex rest of
                  None \<Rightarrow> None
                | Some bs \<Rightarrow> Some (of_nat (16 * x + y) # bs))))"

text \<open>
  \<^verbatim>\<open>BN.toArrayLike(Buffer, 'be', len)\<close> of the big-number library behind
  \<^verbatim>\<open>elliptic\<close>: the number in big-endian order, padded with zero bytes on the left
  to \<open>len\<close> bytes. The library asserts that the number fits into \<open>len\<close> bytes and
  throws otherwise.
\<close>

fun be_bytes :: "nat \<Rightarrow> nat \<Rightarrow> byte list" where
  "be_bytes 0 n = []"
| "be_bytes (Suc len) n = be_bytes len (n div 256) @ [of_nat (n mod 256)]"

definition toArrayLike :: "nat \<Rightarrow> nat \<Rightarrow> error + byte list" where
  "toArrayLike n len =
     (if n < 256 ^ len then Inr (be_bytes len n)
      else Inl (Error ''byte array longer than desired length''))"

text \<open>The number a big-endian byte array stands for.\<close>

definition be_value :: "byte list \<Rightarrow> nat" where
  "be_value bs = foldl (\<lambda>acc b. acc * 256 + unat b) 0 bs"

text \<open>
  What a property of a signature object of \<^verbatim>\<open>elliptic\<close> holds: a big number,
  or a value that has no method \<^verbatim>\<open>toArrayLike\<close> (a function, say), on which the
  call \<^verbatim>\<open>x.toArrayLike(...)\<close> is a \<^verbatim>\<open>TypeError\<close>.
\<close>

datatype sigpart = BN nat | NotBN

definition sigpart_toArrayLike :: "sigpart \<Rightarrow> nat \<Rightarrow> error + byte list" where
  "sigpart_toArrayLike x len =
     (case x of
        BN n \<Rightarrow> toArrayLike n len
      | NotBN \<Rightarrow> Inl (TypeError ''toArrayLike is not a function''))"

text \<open>
  Modelled from the spec: \<^verbatim>\<open>str2hexstr\<close> of \<^verbatim>\<open>src/utils\<close> is not among the
  sources; the specification calls its result the hex encoding of the string, which is
  the hex encoding of the bytes of its characters.
\<close>

definition str2hexstr :: "string \<Rightarrow> string" where
  "str2hexstr str = toString_hex (map (\<lambda>c. of_nat (of_char c)) str)"


section \<open>Keys (src/crypto/PrivateKey.ts)\<close>

text \<open>
  Modelled from the spec: \<^verbatim>\<open>KeyType.ts\<close> and \<^verbatim>\<open>Key.ts\<close> are not among the
  sources. The specification lists the key types ECDSA, EDDSA and SM2, which are the
  static instances that \<^verbatim>\<open>getPublicKey\<close> switches on; \<open>OtherKeyType\<close> stands for
  any other object of the class, the one that reaches the \<^verbatim>\<open>default\<close> branch. A
  key holds its raw bytes, its key type and its parameters; the parameters name a
  curve, of which the code reads the \<^verbatim>\<open>preset\<close>. The bytes of a private key are
  a hex string. The field is declared a string for a public key too, but it holds
  whatever the library call of the derivation returns, a hex string or a byte array:
  a \<open>keyvalue\<close>.
\<close>

datatype KeyType = ECDSA | EDDSA | SM2 | OtherKeyType string

record CurveLabel =
  curve_label :: string
  curve_hex :: int
  preset :: string

record KeyParameters =
  curve :: CurveLabel

datatype keyvalue = KeyHex string | KeyBytes "byte list"

record 'a Key =
  key :: 'a
  algorithm :: KeyType
  parameters :: KeyParameters

type_synonym PrivateKey = "string Key"
type_synonym PublicKey = "keyvalue Key"

text \<open>The value \<^verbatim>\<open>new Signature(schema, signed, publicKeyId)\<close>.\<close>

record Signature =
  schema :: SignatureScheme
  signed :: string
  publicKeyId :: "string option"

text \<open>
  The collaborators of \<^verbatim>\<open>PrivateKey\<close> that are not among the sources are
  parameters of the model, collected in one record:
  \<^item> the calls into \<^verbatim>\<open>elliptic\<close> and \<^verbatim>\<open>sm.js\<close> that derive a compressed public
    key from a curve preset and a private key; the library can throw there (a
    private key that is zero modulo the order of the curve has no public point to
    encode), so they return \<open>error + keyvalue\<close>;
  \<^item> the calls that sign a hash: the ECDSA signature of \<^verbatim>\<open>elliptic\<close> has the
    numbers \<^verbatim>\<open>r\<close> and \<^verbatim>\<open>s\<close>, of its EdDSA signature the code reads the
    properties \<^verbatim>\<open>R\<close> and \<^verbatim>\<open>S\<close>, whatever they hold, and the signature of
    \<^verbatim>\<open>sm.js\<close> is a pair of strings;
  \<^item> \<^verbatim>\<open>hexstring2ab\<close> of \<^verbatim>\<open>src/utils\<close> and the constant \<^verbatim>\<open>DEFAULT_SM2_ID\<close>;
  \<^item> \<^verbatim>\<open>Key.computeHash\<close> and \<^verbatim>\<open>KeyType.defaultSchema\<close>;
  \<^item> \<^verbatim>\<open>encrypt\<close> and \<^verbatim>\<open>decrypt\<close> of \<^verbatim>\<open>src/scrypt\<close>, and the two readings of
    the public-key anchor that \<^verbatim>\<open>checkDecrypted\<close> compares: the anchor embedded in
    an encrypted key, and the anchor that belongs to a public key.
  The type \<open>'p\<close> is that of the scrypt parameters.
\<close>

record 'p collaborators =
  ec_getPublic :: "string \<Rightarrow> string \<Rightarrow> error + keyvalue"
  eddsa_getPublic :: "string \<Rightarrow> string \<Rightarrow> error + keyvalue"
  sm2_pubToString :: "string \<Rightarrow> error + keyvalue"
  ec_sign :: "string \<Rightarrow> string \<Rightarrow> string \<Rightarrow> nat \<times> nat"
  eddsa_sign :: "string \<Rightarrow> string \<Rightarrow> string \<Rightarrow> sigpart \<times> sigpart"
  sm2_sign :: "string \<Rightarrow> byte list \<Rightarrow> string \<times> string"
  hexstring2ab :: "string \<Rightarrow> byte list"
  DEFAULT_SM2_ID :: string
  computeHash :: "PrivateKey \<Rightarrow> string \<Rightarrow> SignatureScheme \<Rightarrow> error + string"
  defaultSchema :: "KeyType \<Rightarrow> SignatureScheme"
  scrypt_encrypt :: "string \<Rightarrow> keyvalue \<Rightarrow> string \<Rightarrow> 'p option \<Rightarrow> string"
  scrypt_decrypt :: "string \<Rightarrow> string \<Rightarrow> 'p option \<Rightarrow> string"
  anchor_embedded :: "string \<Rightarrow> string"
  anchor_of_publicKey :: "keyvalue \<Rightarrow> string"

text \<open>
  Modelled from the spec: \<^verbatim>\<open>Key.isSchemaSupported\<close> is not among the sources. The
  specification gives every scheme exactly one compatible key type in a static table
  (the ECDSA schemes require ECDSA, the EDDSA scheme EDDSA, the SM2 scheme SM2), and
  a scheme is supported by a key when that key type is the key's.
\<close>

definition requiredKeyType :: "SignatureScheme \<Rightarrow> KeyType option" where
  "requiredKeyType s =
     (if s = ECDSAwithSHA224 \<or> s = ECDSAwithSHA256 \<or> s = ECDSAwithSHA384
         \<or> s = ECDSAwithSHA512 \<or> s = ECDSAwithSHA3_224 \<or> s = ECDSAwithSHA3_256
         \<or> s = ECDSAwithSHA3_384 \<or> s = ECDSAwithSHA3_512 \<or> s = ECDSAwithRIPEMD160
      then Some ECDSA
      else if s = EDDSAwithSHA512 then Some EDDSA
      else if s = SM2withSM3 then Some SM2
      else None)"

definition isSchemaSupported :: "'a Key \<Rightarrow> SignatureScheme \<Rightarrow> bool" where
  "isSchemaSupported k s = (requiredKeyType s = Some (algorithm k))"

text \<open>
  Modelled from the spec: \<^verbatim>\<open>checkDecrypted\<close> of \<^verbatim>\<open>src/scrypt\<close> is not among the
  sources. It verifies the derived public key against the public-key anchor embedded
  in the encrypted key and fails with the decryption error if they disagree.
\<close>

definition checkDecrypted :: "'p collaborators \<Rightarrow> string \<Rightarrow> keyvalue \<Rightarrow> error + unit" where
  "checkDecrypted C encryptedKey publicKey =
     (if anchor_embedded C encryptedKey = anchor_of_publicKey C publicKey then Inr ()
      else Inl Decrypto_ERROR)"

subsection \<open>Public key derivation\<close>

definition getEcDSAPublicKey :: "'p collaborators \<Rightarrow> PrivateKey \<Rightarrow> error + PublicKey" where
  "getEcDSAPublicKey C this =
     (case ec_getPublic C (preset (curve (parameters this))) (key this) of
        Inl e \<Rightarrow> Inl e
      | Inr pk \<Rightarrow> Inr \<lparr>key = pk, algorithm = algorithm this, parameters = parameters this\<rparr>)"

definition getEdDSAPublicKey :: "'p collaborators \<Rightarrow> PrivateKey \<Rightarrow> error + PublicKey" where
  "getEdDSAPublicKey C this =
     (case eddsa_getPublic C (preset (curve (parameters this))) (key this) of
        Inl e \<Rightarrow> Inl e
      | Inr pk \<Rightarrow> Inr \<lparr>key = pk, algorithm = algorithm this, parameters = parameters this\<rparr>)"

definition getSM2PublicKey :: "'p collaborators \<Rightarrow> PrivateKey \<Rightarrow> error + PublicKey" where
  "getSM2PublicKey C this =
     (case sm2_pubToString C (key this) of
        Inl e \<Rightarrow> Inl e
      | Inr pk \<Rightarrow> Inr \<lparr>key = pk, algorithm = algorithm this, parameters = parameters this\<rparr>)"

definition getPublicKey :: "'p collaborators \<Rightarrow> PrivateKey \<Rightarrow> error + PublicKey" where
  "getPublicKey C this =
     (case algorithm this of
        ECDSA \<Rightarrow> getEcDSAPublicKey C this
      | EDDSA \<Rightarrow> getEdDSAPublicKey C this
      | SM2 \<Rightarrow> getSM2PublicKey C this
      | OtherKeyType _ \<Rightarrow> Inl (Error ''Unsupported signature schema.''))"

subsection \<open>Signing\<close>

definition computeEcDSASignature :: "'p collaborators \<Rightarrow> PrivateKey \<Rightarrow> string \<Rightarrow> error + string" where
  "computeEcDSASignature C this hash =
     (case ec_sign C (preset (curve (parameters this))) hash (key this) of
        (r, s) \<Rightarrow>
          (case toArrayLike r 32 of
             Inl e \<Rightarrow> Inl e
           | Inr rb \<Rightarrow>
               (case toArrayLike s 32 of
                  Inl e \<Rightarrow> Inl e
                | Inr sb \<Rightarrow> Inr (toString_hex (rb @ sb)))))"

definition computeEdDSASignature :: "'p collaborators \<Rightarrow> PrivateKey \<Rightarrow> string \<Rightarrow> error + string" where
  "computeEdDSASignature C this hash =
     (case eddsa_sign C (preset (curve (parameters this))) hash (key this) of
        (R, S) \<Rightarrow>
          (case sigpart_toArrayLike R 32 of
             Inl e \<Rightarrow> Inl e
           | Inr rb \<Rightarrow>
               (case sigpart_toArrayLike S 32 of
                  Inl e \<Rightarrow> Inl e
                | Inr sb \<Rightarrow> Inr (toString_hex (rb @ sb)))))"

definition computeSM2Signature :: "'p collaborators \<Rightarrow> PrivateKey \<Rightarrow> string \<Rightarrow> string" where
  "computeSM2Signature C this hash =
     (case sm2_sign C (key this) (hexstring2ab C hash) of
        (r, s) \<Rightarrow>
          (let id = DEFAULT_SM2_ID C
           in str2hexstr (id @ [CHR 0x00]) @ r @ s))"

definition computeSignature ::
  "'p collaborators \<Rightarrow> PrivateKey \<Rightarrow> string \<Rightarrow> SignatureScheme \<Rightarrow> error + string" where
  "computeSignature C this hash sch =
     (if sch = ECDSAwithSHA224 \<or> sch = ECDSAwithSHA256 \<or> sch = ECDSAwithSHA384
         \<or> sch = ECDSAwithSHA512 \<or> sch = ECDSAwithSHA3_224 \<or> sch = ECDSAwithSHA3_256
         \<or> sch = ECDSAwithSHA3_384 \<or> sch = ECDSAwithSHA3_512 \<or> sch = ECDSAwithRIPEMD160
      then computeEcDSASignature C this hash
      else if sch = EDDSAwithSHA512 then computeEdDSASignature C this hash
      else if sch = SM2withSM3 then Inr (computeSM2Signature C this hash)
      else Inl (Error ''Unsupported signature schema.''))"

definition sign ::
  "'p collaborators \<Rightarrow> PrivateKey \<Rightarrow> string \<Rightarrow> SignatureScheme option \<Rightarrow> string option
     \<Rightarrow> error + Signature" where
  "sign C this msg sch_opt pkId =
     (let sch = (case sch_opt of None \<Rightarrow> defaultSchema C (algorithm this) | Some s \<Rightarrow> s)
      in if \<not> isSchemaSupported this sch
         then Inl (Error ''Signature schema does not match key type.'')
         else (case computeHash C this msg sch of
                 Inl e \<Rightarrow> Inl e
               | Inr hash \<Rightarrow>
                   (case computeSignature C this hash sch of
                      Inl e \<Rightarrow> Inl e
                    | Inr sg \<Rightarrow> Inr \<lparr>schema = sch, signed = sg, publicKeyId = pkId\<rparr>)))"

subsection \<open>Encryption with a passphrase\<close>

definition decrypt :: "'p collaborators \<Rightarrow> PrivateKey \<Rightarrow> string \<Rightarrow> 'p option \<Rightarrow> error + PrivateKey" where
  "decrypt C this keyphrase params =
     (let decrypted = scrypt_decrypt C (key this) keyphrase params;
          decryptedKey = \<lparr>key = decrypted, algorithm = algorithm this,
                          parameters = parameters this\<rparr>
      in case getPublicKey C decryptedKey of
           Inl e \<Rightarrow> Inl e
         | Inr pub \<Rightarrow>
             (case checkDecrypted C (key this) (key pub) of
                Inl e \<Rightarrow> Inl e
              | Inr _ \<Rightarrow> Inr decryptedKey))"




section \<open>The REST client (src/network/rest/restClient.ts)\<close>

text \<open>
  \<^verbatim>\<open>encodeURIComponent\<close> of JavaScript, on strings held as their UTF-8 bytes: the
  unreserved characters stay, every other byte becomes \<open>%\<close> and two upper-case
  hexadecimal digits.
\<close>

definition uriUnreserved :: "char \<Rightarrow> bool" where
  "uriUnreserved c =
     (c \<in> set (''ABCDEFGHIJKLMNOPQRSTUVWXYZabcdefghijklmnopqrstuvwxyz0123456789-_.!~*()''
               @ [CHR 0x27]))"

definition hexDigitUpper :: "nat \<Rightarrow> char" where
  "hexDigitUpper n = ''0123456789ABCDEF'' ! (n mod 16)"

definition encodeURIComponent :: "string \<Rightarrow> string" where
  "encodeURIComponent str =
     concat (map (\<lambda>c. if uriUnreserved c then [c]
                       else [CHR ''%'', hexDigitUpper (of_char c div 16),
                             hexDigitUpper (of_char c mod 16)]) str)"

text \<open>
  A JavaScript \<^verbatim>\<open>Map\<close> keeps its keys in insertion order: an association list.
  \<^verbatim>\<open>set\<close> replaces the value of a key that is present, in place, and appends a
  new key.
\<close>

fun Map_set :: "('k \<times> 'v) list \<Rightarrow> 'k \<Rightarrow> 'v \<Rightarrow> ('k \<times> 'v) list" where
  "Map_set [] k v = [(k, v)]"
| "Map_set ((k', v') # m) k v = (if k' = k then (k, v) # m else (k', v') # Map_set m k v)"

text \<open>
  The loop of \<^verbatim>\<open>concatParams\<close> over the keys of the map. \<^verbatim>\<open>params.get(key)\<close>
  is a string or \<^verbatim>\<open>undefined\<close>; a string is truthy when it is not empty, and the
  template literal prints \<^verbatim>\<open>undefined\<close> as that word.
\<close>

fun concatParams_loop :: "(string \<times> string) list \<Rightarrow> string list \<Rightarrow> string \<Rightarrow> string" where
  "concatParams_loop params [] result = result"
| "concatParams_loop params (k # keys) result =
     (let v = (case map_of params k of
                 None \<Rightarrow> ''undefined''
               | Some v \<Rightarrow> if v \<noteq> [] then encodeURIComponent v else v)
      in concatParams_loop params keys (result @ ''&'' @ k @ ''='' @ v))"

definition concatParams :: "(string \<times> string) list \<Rightarrow> string" where
  "concatParams params =
     (let result = [] in
      if length params = 0 then []
      else ''?'' @ drop 1 (concatParams_loop params (map fst params) result))"

record RestClient =
  url :: string
  version :: string
  action :: string

record Body =
  Action :: string
  Version :: string
  Data :: string

record Request =
  request_url :: string
  request_body :: Body

text \<open>
  \<^verbatim>\<open>sendRawTransaction\<close> builds a URL and a body and posts them; the model returns
  the request that is posted. The constant \<^verbatim>\<open>UrlConsts.Url_send_transaction\<close> is
  not among the sources and is the parameter \<open>Url_send_transaction\<close>. The arguments
  \<^verbatim>\<open>preExec\<close> and \<^verbatim>\<open>userId\<close> can be omitted; \<^verbatim>\<open>preExec\<close> then is
  \<^verbatim>\<open>false\<close>, and a user id is used when it is given and not empty.
\<close>

definition sendRawTransaction ::
  "string \<Rightarrow> RestClient \<Rightarrow> string \<Rightarrow> bool option \<Rightarrow> string option \<Rightarrow> Request" where
  "sendRawTransaction Url_send_transaction this hexData preExec_opt userId =
     (let preExec = (case preExec_opt of None \<Rightarrow> False | Some b \<Rightarrow> b);
          param = [];
          param = (case userId of
                     None \<Rightarrow> param
                   | Some u \<Rightarrow> if u \<noteq> [] then Map_set param ''userid'' u else param);
          param = Map_set param ''preExec'' ''1'';
          u = url this @ Url_send_transaction;
          u = u @ concatParams param;
          body = \<lparr>Action = action this, Version = version this, Data = hexData\<rparr>
      in \<lparr>request_url = u, request_body = body\<rparr>)"


section \<open>A sample of collaborators\<close>

text \<open>
  A small instance of the collaborators on which the functions can be run. It
  follows the libraries where the claims depend on them:
  \<^item> \<^verbatim>\<open>elliptic\<close> reduces an ECDSA private key modulo the order of the curve, and
    the public point of zero is the point at infinity, which has no coordinates:
    encoding it reads a property of \<^verbatim>\<open>null\<close>. The instance does so for a key of
    zeros only.
  \<^item> The EdDSA key pair of \<^verbatim>\<open>elliptic\<close> returns its public key as a byte array
    when asked with \<^verbatim>\<open>getPublic(true, 'hex')\<close>, and the properties \<^verbatim>\<open>R\<close> and
    \<^verbatim>\<open>S\<close> of its signature are methods, not numbers.
  Its cipher reverses the key bytes when the passphrase has even length, and keeps
  four characters of the public key (padded with zeros) in front as the anchor.
\<close>

definition sample_defaultSchema :: "KeyType \<Rightarrow> SignatureScheme" where
  "sample_defaultSchema t =
     (case t of ECDSA \<Rightarrow> ECDSAwithSHA256 | EDDSA \<Rightarrow> EDDSAwithSHA512 | SM2 \<Rightarrow> SM2withSM3
      | OtherKeyType _ \<Rightarrow> ECDSAwithSHA256)"

definition sample_anchor :: "keyvalue \<Rightarrow> string" where
  "sample_anchor pub =
     (case pub of
        KeyHex h \<Rightarrow> take 4 (h @ ''0000'')
      | KeyBytes bs \<Rightarrow> take 4 (toString_hex bs @ ''0000''))"

definition sample :: "'p collaborators" where
  "sample =
     \<lparr>ec_getPublic = (\<lambda>p k.
         if filter (\<lambda>c. c \<noteq> CHR ''0'') k = []
         then Inl (TypeError ''Cannot read property of null'')
         else Inr (KeyHex (''02'' @ k))),
      eddsa_getPublic = (\<lambda>p k. Inr (KeyBytes (map (\<lambda>c. of_nat (of_char c)) k))),
      sm2_pubToString = (\<lambda>k. Inr (KeyHex (''03'' @ k))),
      ec_sign = (\<lambda>p h k. (length h, 256 + length k)),
      eddsa_sign = (\<lambda>p h k. (NotBN, NotBN)),
      sm2_sign = (\<lambda>k h. (''1f'', ''abc'')),
      hexstring2ab = (\<lambda>h. []),
      DEFAULT_SM2_ID = ''1234567812345678'',
      computeHash = (\<lambda>k m s. Inr m),
      defaultSchema = sample_defaultSchema,
      scrypt_encrypt = (\<lambda>k pub pw params.
         sample_anchor pub @ (if even (length pw) then rev k else k)),
      scrypt_decrypt = (\<lambda>e pw params.
         if even (length pw) then rev (drop 4 e) else drop 4 e),
      anchor_embedded = (\<lambda>e. take 4 e),
      anchor_of_publicKey = sample_anchor\<rparr>"

definition secp256r1 :: KeyParameters where
  "secp256r1 = \<lparr>curve = \<lparr>curve_label = ''P-256'', curve_hex = 2, preset = ''p256''\<rparr>\<rparr>"


section \<open>The populated registry\<close>

lemmas scheme_defs =
  ECDSAwithSHA224_def ECDSAwithSHA256_def ECDSAwithSHA384_def ECDSAwithSHA512_def
  ECDSAwithSHA3_224_def ECDSAwithSHA3_256_def ECDSAwithSHA3_384_def ECDSAwithSHA3_512_def
  ECDSAwithRIPEMD160_def SM2withSM3_def EDDSAwithSHA512_def

lemma SignatureScheme_values_eq:
  "SignatureScheme_values =
     [ECDSAwithSHA224, ECDSAwithSHA256, ECDSAwithSHA384, ECDSAwithSHA512,
      ECDSAwithSHA3_224, ECDSAwithSHA3_256, ECDSAwithSHA3_384, ECDSAwithSHA3_512,
      ECDSAwithRIPEMD160, SM2withSM3, EDDSAwithSHA512]"
  by (simp add: SignatureScheme_values_def SignatureScheme_new_def Let_def scheme_defs)

lemma hex_values: "map hex SignatureScheme_values = [0, 1, 2, 3, 4, 5, 6, 7, 8, 9, 10]"
  by (simp add: SignatureScheme_values_eq scheme_defs)


section \<open>Registry lookups\<close>

lemma lookup_find_Inl:
  "((case find P vals of None \<Rightarrow> Inl e | Some item \<Rightarrow> Inr item) = Inl e)
     = (\<forall>v\<in>set vals. \<not> P v)"
proof (cases "find P vals")
  case None
  have "\<forall>v\<in>set vals. \<not> P v" using None by (simp add: find_None_iff)
  then show ?thesis by (simp add: None)
next
  case (Some a)
  then have "\<exists>v\<in>set vals. P v" by (auto simp: find_Some_iff)
  then show ?thesis by (simp add: Some)
qed

lemma lookup_find_Inr:
  "((case find P vals of None \<Rightarrow> Inl e | Some item \<Rightarrow> Inr item) = Inr v)
     = (\<exists>i<length vals. P (vals ! i) \<and> v = vals ! i \<and> (\<forall>j<i. \<not> P (vals ! j)))"
proof (cases "find P vals")
  case None
  have "\<forall>i<length vals. \<not> P (vals ! i)" using None by (auto simp: find_None_iff)
  then show ?thesis by (auto simp add: None)
next
  case (Some a)
  have "(a = v) = (find P vals = Some v)" by (simp add: Some)
  also have "\<dots> = (\<exists>i<length vals. P (vals ! i) \<and> v = vals ! i \<and> (\<forall>j<i. \<not> P (vals ! j)))"
    by (rule find_Some_iff)
  finally show ?thesis by (simp add: Some)
qed

text \<open>
  Claim C7. Whatever the registry holds, each of \<open>fromHex\<close>, \<open>fromLabel\<close> and
  \<open>fromLabelJWS\<close> fails with the not-found error exactly when no registered scheme
  has a code (label, JWS label) equal to the argument, and otherwise returns the
  first registered scheme, in the order of the registry, whose field equals the
  argument: a scan from the front, with equality as the only way to match and no
  value returned in place of a match.
\<close>

theorem lookup_exact_match_or_error:
  "((fromHex vals h = Inl SchemeNotFoundError) = (\<forall>v\<in>set vals. hex v \<noteq> h))
   \<and> ((fromHex vals h = Inr a) =
        (\<exists>i<length vals. hex (vals ! i) = h \<and> a = vals ! i \<and> (\<forall>j<i. hex (vals ! j) \<noteq> h)))
   \<and> ((fromLabel vals l = Inl SchemeNotFoundError) = (\<forall>v\<in>set vals. label v \<noteq> l))
   \<and> ((fromLabel vals l = Inr b) =
        (\<exists>i<length vals. label (vals ! i) = l \<and> b = vals ! i
           \<and> (\<forall>j<i. label (vals ! j) \<noteq> l)))
   \<and> ((fromLabelJWS vals w = Inl SchemeNotFoundError) = (\<forall>v\<in>set vals. labelJWS v \<noteq> w))
   \<and> ((fromLabelJWS vals w = Inr c) =
        (\<exists>i<length vals. labelJWS (vals ! i) = w \<and> c = vals ! i
           \<and> (\<forall>j<i. labelJWS (vals ! j) \<noteq> w)))"
  unfolding fromHex_def fromLabel_def fromLabelJWS_def
  by (simp only: lookup_find_Inl lookup_find_Inr simp_thms)

text \<open>
  On the populated registry: the code 11, a proper prefix of a label and a proper
  prefix of a JWS label are not found.
\<close>

theorem lookup_exact_match_or_error_witness:
  "fromHex SignatureScheme_values 11 = Inl SchemeNotFoundError
   \<and> fromLabel SignatureScheme_values ''ECDSAwithSHA'' = Inl SchemeNotFoundError
   \<and> fromLabelJWS SignatureScheme_values ''ES'' = Inl SchemeNotFoundError"
  using lookup_exact_match_or_error
          [where vals = SignatureScheme_values and h = 11 and l = "''ECDSAwithSHA''"
             and w = "''ES''"]
  by (simp add: SignatureScheme_values_eq scheme_defs)

text \<open>
  Claim C8. On the populated registry, \<open>fromHex 1\<close> returns the scheme with label
  \<open>ECDSAwithSHA256\<close> and JWS label \<open>ES256\<close>, and \<open>fromLabel ''SM2withSM3''\<close>
  returns the scheme with code 9.
\<close>

theorem registry_lookup_examples:
  "fromHex SignatureScheme_values 1 = Inr ECDSAwithSHA256
   \<and> label ECDSAwithSHA256 = ''ECDSAwithSHA256''
   \<and> labelJWS ECDSAwithSHA256 = ''ES256''
   \<and> fromLabel SignatureScheme_values ''SM2withSM3'' = Inr SM2withSM3
   \<and> hex SM2withSM3 = 9"
  by (simp add: fromHex_def fromLabel_def SignatureScheme_values_eq scheme_defs)


section \<open>The request of sendRawTransaction\<close>

lemma concatParams_preExec_only: "concatParams [(''preExec'', ''1'')] = ''?preExec=1''"
  by (simp add: concatParams_def encodeURIComponent_def uriUnreserved_def)

lemma concatParams_userid_preExec:
  "u \<noteq> [] \<Longrightarrow>
     concatParams [(''userid'', u), (''preExec'', ''1'')]
       = ''?userid='' @ encodeURIComponent u @ ''&preExec=1''"
  by (simp add: concatParams_def encodeURIComponent_def uriUnreserved_def)

text \<open>
  Claim C10. For every client, payload and user id, and for every way of passing
  \<open>preExec\<close> (true, false or omitted), the URL that \<open>sendRawTransaction\<close> posts
  to is the base URL, the path, and a query string that ends with \<open>preExec=1\<close>
  (after the encoded user id, when one is given and not empty); the request does not
  depend on \<open>preExec\<close>.
\<close>

theorem sendRawTransaction_preExec_is_1:
  "request_url (sendRawTransaction U c hexData preExec userId) =
     url c @ U @ ''?''
       @ (case userId of
            None \<Rightarrow> []
          | Some u \<Rightarrow> if u = [] then [] else ''userid='' @ encodeURIComponent u @ ''&'')
       @ ''preExec=1''
   \<and> sendRawTransaction U c hexData preExec userId
       = sendRawTransaction U c hexData preExec' userId"
  by (simp add: sendRawTransaction_def concatParams_preExec_only concatParams_userid_preExec
        split: option.split)

theorem sendRawTransaction_preExec_is_1_witness:
  "request_url (sendRawTransaction ''/api/v1/transaction''
      \<lparr>url = ''http://node'', version = ''v1.0.0'', action = ''sendrawtransaction''\<rparr>
      ''00'' (Some False) None)
    = ''http://node/api/v1/transaction?preExec=1''
   \<and> request_url (sendRawTransaction ''/api/v1/transaction''
      \<lparr>url = ''http://node'', version = ''v1.0.0'', action = ''sendrawtransaction''\<rparr>
      ''00'' None (Some ''a b''))
    = ''http://node/api/v1/transaction?userid=a%20b&preExec=1''"
  using sendRawTransaction_preExec_is_1 [THEN conjunct1, of "''/api/v1/transaction''"
      "\<lparr>url = ''http://node'', version = ''v1.0.0'', action = ''sendrawtransaction''\<rparr>"
      "''00''" "Some False" None]
    sendRawTransaction_preExec_is_1 [THEN conjunct1, of "''/api/v1/transaction''"
      "\<lparr>url = ''http://node'', version = ''v1.0.0'', action = ''sendrawtransaction''\<rparr>"
      "''00''" None "Some ''a b''"]
  by (simp add: encodeURIComponent_def uriUnreserved_def hexDigitUpper_def)


section \<open>Public key derivation\<close>

text \<open>
  Claim C6, as stated, fails: a key of a supported type need not get a public key.
  With a library that behaves as \<^verbatim>\<open>elliptic\<close> does at the private key zero, the
  derivation throws and \<open>getPublicKey\<close> ends in that error.
\<close>

theorem getPublicKey_zero_key_counterexample:
  "algorithm \<lparr>key = ''0000000000000000000000000000000000000000000000000000000000000000'',
               algorithm = ECDSA, parameters = secp256r1\<rparr> \<in> {ECDSA, EDDSA, SM2}
   \<and> getPublicKey (sample :: unit collaborators)
        \<lparr>key = ''0000000000000000000000000000000000000000000000000000000000000000'',
          algorithm = ECDSA, parameters = secp256r1\<rparr>
       = Inl (TypeError ''Cannot read property of null'')"
  by (simp add: getPublicKey_def getEcDSAPublicKey_def sample_def)

text \<open>
  Claim C6, amended. For a private key of type ECDSA, EDDSA or SM2, \<open>getPublicKey\<close>
  runs the derivation of that family: when the derivation returns, the result is a
  public key that holds what it returned, with the key type and the parameters of the
  private key; when it throws, \<open>getPublicKey\<close> fails with the same error. So every
  public key that \<open>getPublicKey\<close> returns has the key type and parameters of its
  private key. For a key of any other type it fails with the unsupported-algorithm
  error.
\<close>

theorem getPublicKey_same_type_and_parameters:
  "(algorithm k \<in> {ECDSA, EDDSA, SM2} \<longrightarrow>
      getPublicKey C k =
        (case (if algorithm k = ECDSA
                 then ec_getPublic C (preset (curve (parameters k))) (key k)
               else if algorithm k = EDDSA
                 then eddsa_getPublic C (preset (curve (parameters k))) (key k)
               else sm2_pubToString C (key k)) of
           Inl e \<Rightarrow> Inl e
         | Inr v \<Rightarrow> Inr \<lparr>key = v, algorithm = algorithm k, parameters = parameters k\<rparr>))
   \<and> (\<forall>pub. getPublicKey C k = Inr pub \<longrightarrow>
          algorithm k \<in> {ECDSA, EDDSA, SM2}
          \<and> algorithm pub = algorithm k \<and> parameters pub = parameters k)
   \<and> (algorithm k \<notin> {ECDSA, EDDSA, SM2} \<longrightarrow>
        getPublicKey C k = Inl UnsupportedAlgorithmError)"
  by (cases "algorithm k")
     (auto simp add: getPublicKey_def getEcDSAPublicKey_def getEdDSAPublicKey_def
        getSM2PublicKey_def split: sum.splits)

theorem getPublicKey_same_type_and_parameters_witness:
  "getPublicKey (sample :: unit collaborators)
        \<lparr>key = ''ab'', algorithm = ECDSA, parameters = secp256r1\<rparr>
     = Inr \<lparr>key = KeyHex ''02ab'', algorithm = ECDSA, parameters = secp256r1\<rparr>
   \<and> getPublicKey (sample :: unit collaborators)
        \<lparr>key = ''00'', algorithm = ECDSA, parameters = secp256r1\<rparr>
     = Inl (TypeError ''Cannot read property of null'')
   \<and> getPublicKey (sample :: unit collaborators)
        \<lparr>key = ''ab'', algorithm = EDDSA, parameters = secp256r1\<rparr>
     = Inr \<lparr>key = KeyBytes [97, 98], algorithm = EDDSA, parameters = secp256r1\<rparr>
   \<and> getPublicKey (sample :: unit collaborators)
        \<lparr>key = ''ab'', algorithm = OtherKeyType ''RSA'', parameters = secp256r1\<rparr>
     = Inl UnsupportedAlgorithmError"
  using getPublicKey_same_type_and_parameters
      [of "\<lparr>key = ''ab'', algorithm = ECDSA, parameters = secp256r1\<rparr>"
          "sample :: unit collaborators"]
    getPublicKey_same_type_and_parameters
      [of "\<lparr>key = ''00'', algorithm = ECDSA, parameters = secp256r1\<rparr>"
          "sample :: unit collaborators"]
    getPublicKey_same_type_and_parameters
      [of "\<lparr>key = ''ab'', algorithm = EDDSA, parameters = secp256r1\<rparr>"
          "sample :: unit collaborators"]
    getPublicKey_same_type_and_parameters
      [of "\<lparr>key = ''ab'', algorithm = OtherKeyType ''RSA'', parameters = secp256r1\<rparr>"
          "sample :: unit collaborators"]
  by (simp add: sample_def)


section \<open>Hex strings\<close>

lemma hexValue_hexDigit_all: "list_all (\<lambda>n. hexValue (hexDigit n) = Some n) [0..<16]"
  by code_simp

lemma hexValue_hexDigit: "n < 16 \<Longrightarrow> hexValue (hexDigit n) = Some n"
  using hexValue_hexDigit_all by (simp add: list_all_iff)

lemma parse_hex_byte2hex:
  "parse_hex (byte2hex b @ rest) = map_option ((#) b) (parse_hex rest)"
proof -
  have lt: "unat b < 256" using unsigned_less [of b, where 'a = nat] by simp
  then have hi: "unat b div 16 < 16" by simp
  have lo: "unat b mod 16 < 16" by simp
  have v: "(of_nat (16 * (unat b div 16) + unat b mod 16) :: byte) = b"
    by simp
  show ?thesis
    by (cases "parse_hex rest")
       (simp_all add: byte2hex_def hexValue_hexDigit [OF hi] hexValue_hexDigit [OF lo] v
          del: of_nat_add of_nat_mult)
qed

lemma parse_hex_toString_hex: "parse_hex (toString_hex bs) = Some bs"
proof (induction bs)
  case Nil
  show ?case by (simp add: toString_hex_def)
next
  case (Cons b bs)
  have "toString_hex (b # bs) = byte2hex b @ toString_hex bs"
    by (simp add: toString_hex_def)
  then show ?case by (simp add: parse_hex_byte2hex Cons)
qed

lemma length_be_bytes: "length (be_bytes len n) = len"
  by (induction len arbitrary: n) auto

lemma length_toString_hex: "length (toString_hex bs) = 2 * length bs"
  by (induction bs) (auto simp: toString_hex_def byte2hex_def)


section \<open>Signing\<close>

lemma requiredKeyType_registry:
  "map requiredKeyType SignatureScheme_values =
     [Some ECDSA, Some ECDSA, Some ECDSA, Some ECDSA, Some ECDSA, Some ECDSA, Some ECDSA,
      Some ECDSA, Some ECDSA, Some SM2, Some EDDSA]"
  by (simp add: SignatureScheme_values_eq requiredKeyType_def scheme_defs)

text \<open>
  Claim C2. When the key type that the scheme requires differs from the key's (the
  scheme being the one passed or, if none is passed, the default of the key's type),
  \<open>sign\<close> fails with the mismatch error. The check comes before hashing and
  signing: the result is the same whatever the hash function and the three signers
  are, also when they would fail.
\<close>

theorem sign_rejects_mismatch_first:
  "requiredKeyType (case sch of None \<Rightarrow> defaultSchema C (algorithm k) | Some s \<Rightarrow> s) = Some t
   \<Longrightarrow> t \<noteq> algorithm k
   \<Longrightarrow> sign C k msg sch pkId = Inl SchemeMismatchError
       \<and> sign (C\<lparr>computeHash := H, ec_sign := E, eddsa_sign := D, sm2_sign := S\<rparr>)
           k msg sch pkId
           = Inl SchemeMismatchError"
  by (cases sch) (auto simp add: sign_def isSchemaSupported_def Let_def)

theorem sign_rejects_mismatch_first_witness:
  "requiredKeyType ECDSAwithSHA224 = Some ECDSA \<and> ECDSA \<noteq> SM2
   \<and> sign (sample :: unit collaborators)
        \<lparr>key = ''ab'', algorithm = SM2, parameters = secp256r1\<rparr>
        ''0011'' (Some ECDSAwithSHA224) None = Inl SchemeMismatchError
   \<and> sign ((sample :: unit collaborators)\<lparr>computeHash := (\<lambda>k m s. Inl (Error ''hash'')),
           ec_sign := (\<lambda>p h k. (0, 0)), eddsa_sign := (\<lambda>p h k. (BN 0, BN 0)),
           sm2_sign := (\<lambda>k h. ([], []))\<rparr>)
        \<lparr>key = ''ab'', algorithm = SM2, parameters = secp256r1\<rparr>
        ''0011'' (Some ECDSAwithSHA224) None = Inl SchemeMismatchError"
proof -
  have r: "requiredKeyType (case Some ECDSAwithSHA224 of
              None \<Rightarrow> defaultSchema (sample :: unit collaborators)
                        (algorithm \<lparr>key = ''ab'', algorithm = SM2, parameters = secp256r1\<rparr>)
            | Some s \<Rightarrow> s) = Some ECDSA"
    by (simp add: requiredKeyType_def)
  have n: "ECDSA \<noteq> algorithm \<lparr>key = ''ab'', algorithm = SM2, parameters = secp256r1\<rparr>"
    by simp
  show ?thesis
    using sign_rejects_mismatch_first [OF r n] r by simp
qed


lemma toArrayLike_error:
  "toArrayLike n len = Inl e \<Longrightarrow> e = Error ''byte array longer than desired length''"
  by (auto simp: toArrayLike_def split: if_splits)

lemma computeEcDSASignature_error:
  "computeEcDSASignature C k h = Inl e \<Longrightarrow> e = Error ''byte array longer than desired length''"
  by (auto simp: computeEcDSASignature_def dest: toArrayLike_error split: prod.splits sum.splits)

lemma sigpart_toArrayLike_error:
  "sigpart_toArrayLike x len = Inl e \<Longrightarrow>
     e = Error ''byte array longer than desired length''
     \<or> e = TypeError ''toArrayLike is not a function''"
  by (cases x) (auto simp: sigpart_toArrayLike_def dest: toArrayLike_error)

lemma computeEdDSASignature_error:
  "computeEdDSASignature C k h = Inl e \<Longrightarrow>
     e = Error ''byte array longer than desired length''
     \<or> e = TypeError ''toArrayLike is not a function''"
  by (auto simp: computeEdDSASignature_def dest: sigpart_toArrayLike_error
        split: prod.splits sum.splits)

lemma computeSignature_ecdsa:
  "sch \<in> {ECDSAwithSHA224, ECDSAwithSHA256, ECDSAwithSHA384, ECDSAwithSHA512,
           ECDSAwithSHA3_224, ECDSAwithSHA3_256, ECDSAwithSHA3_384, ECDSAwithSHA3_512,
           ECDSAwithRIPEMD160}
   \<Longrightarrow> computeSignature C k h sch = computeEcDSASignature C k h"
  by (auto simp: computeSignature_def)

lemma computeSignature_eddsa:
  "computeSignature C k h EDDSAwithSHA512 = computeEdDSASignature C k h"
  by (simp add: computeSignature_def scheme_defs)

lemma computeSignature_sm2:
  "computeSignature C k h SM2withSM3 = Inr (computeSM2Signature C k h)"
  by (simp add: computeSignature_def scheme_defs)

text \<open>
  Claim C9. The populated registry holds the codes 0 to 10, and for every scheme in
  it \<open>computeSignature\<close> does not end in the unsupported-scheme error of its default
  branch: the schemes with codes 0 to 8 take the ECDSA path, the scheme with code 10
  the EdDSA path and the scheme with code 9 the SM2 path, so every registered scheme
  takes exactly one of the three.
\<close>

theorem computeSignature_registry_dispatch:
  "map hex SignatureScheme_values = [0, 1, 2, 3, 4, 5, 6, 7, 8, 9, 10]
   \<and> (\<forall>sch \<in> set SignatureScheme_values.
        computeSignature C k h sch \<noteq> Inl UnsupportedSchemeError
        \<and> ((0 \<le> hex sch \<and> hex sch \<le> 8
               \<and> computeSignature C k h sch = computeEcDSASignature C k h)
           \<or> (hex sch = 10 \<and> computeSignature C k h sch = computeEdDSASignature C k h)
           \<or> (hex sch = 9 \<and> computeSignature C k h sch = Inr (computeSM2Signature C k h))))"
proof (intro conjI ballI)
  show "map hex SignatureScheme_values = [0, 1, 2, 3, 4, 5, 6, 7, 8, 9, 10]"
    by (rule hex_values)
next
  fix sch assume "sch \<in> set SignatureScheme_values"
  then consider
      (ec) "sch \<in> {ECDSAwithSHA224, ECDSAwithSHA256, ECDSAwithSHA384, ECDSAwithSHA512,
           ECDSAwithSHA3_224, ECDSAwithSHA3_256, ECDSAwithSHA3_384, ECDSAwithSHA3_512,
           ECDSAwithRIPEMD160}"
    | (ed) "sch = EDDSAwithSHA512" | (sm) "sch = SM2withSM3"
    by (auto simp: SignatureScheme_values_eq)
  then have d: "(0 \<le> hex sch \<and> hex sch \<le> 8
               \<and> computeSignature C k h sch = computeEcDSASignature C k h)
           \<or> (hex sch = 10 \<and> computeSignature C k h sch = computeEdDSASignature C k h)
           \<or> (hex sch = 9 \<and> computeSignature C k h sch = Inr (computeSM2Signature C k h))"
  proof cases
    case ec
    have "0 \<le> hex sch \<and> hex sch \<le> 8" using ec by (auto simp: scheme_defs)
    then show ?thesis using computeSignature_ecdsa [OF ec] by simp
  next
    case ed
    then show ?thesis by (simp add: computeSignature_eddsa) (simp add: scheme_defs)
  next
    case sm
    then show ?thesis by (simp add: computeSignature_sm2) (simp add: scheme_defs)
  qed
  show "computeSignature C k h sch \<noteq> Inl UnsupportedSchemeError"
    using d by (auto dest: computeEcDSASignature_error computeEdDSASignature_error)
  show "(0 \<le> hex sch \<and> hex sch \<le> 8
               \<and> computeSignature C k h sch = computeEcDSASignature C k h)
           \<or> (hex sch = 10 \<and> computeSignature C k h sch = computeEdDSASignature C k h)
           \<or> (hex sch = 9 \<and> computeSignature C k h sch = Inr (computeSM2Signature C k h))"
    by (rule d)
qed

theorem computeSignature_registry_dispatch_witness:
  "SM2withSM3 \<in> set SignatureScheme_values
   \<and> computeSignature (sample :: unit collaborators)
        \<lparr>key = ''ab'', algorithm = SM2, parameters = secp256r1\<rparr> ''0011'' SM2withSM3
      = Inr ''31323334353637383132333435363738001fabc''
   \<and> EDDSAwithSHA512 \<in> set SignatureScheme_values
   \<and> computeSignature (sample :: unit collaborators)
        \<lparr>key = ''ab'', algorithm = EDDSA, parameters = secp256r1\<rparr> ''0011'' EDDSAwithSHA512
      = computeEdDSASignature (sample :: unit collaborators)
        \<lparr>key = ''ab'', algorithm = EDDSA, parameters = secp256r1\<rparr> ''0011''"
proof -
  have m: "SM2withSM3 \<in> set SignatureScheme_values" "EDDSAwithSHA512 \<in> set SignatureScheme_values"
    by (simp_all add: SignatureScheme_values_eq)
  note dS = computeSignature_registry_dispatch
      [where C = "sample :: unit collaborators" and h = "''0011''"
         and k = "\<lparr>key = ''ab'', algorithm = SM2, parameters = secp256r1\<rparr>",
       THEN conjunct2, THEN bspec]
  note dE = computeSignature_registry_dispatch
      [where C = "sample :: unit collaborators" and h = "''0011''"
         and k = "\<lparr>key = ''ab'', algorithm = EDDSA, parameters = secp256r1\<rparr>",
       THEN conjunct2, THEN bspec]
  have "computeSignature (sample :: unit collaborators)
        \<lparr>key = ''ab'', algorithm = SM2, parameters = secp256r1\<rparr> ''0011'' SM2withSM3
      = Inr (computeSM2Signature (sample :: unit collaborators)
        \<lparr>key = ''ab'', algorithm = SM2, parameters = secp256r1\<rparr> ''0011'')"
    using dS [OF m(1)] by (simp add: scheme_defs)
  moreover have "computeSM2Signature (sample :: unit collaborators)
        \<lparr>key = ''ab'', algorithm = SM2, parameters = secp256r1\<rparr> ''0011''
       = ''31323334353637383132333435363738001fabc''"
    by (simp add: computeSM2Signature_def sample_def str2hexstr_def toString_hex_def
          byte2hex_def hexDigit_def)
  moreover have "computeSignature (sample :: unit collaborators)
        \<lparr>key = ''ab'', algorithm = EDDSA, parameters = secp256r1\<rparr> ''0011'' EDDSAwithSHA512
      = computeEdDSASignature (sample :: unit collaborators)
        \<lparr>key = ''ab'', algorithm = EDDSA, parameters = secp256r1\<rparr> ''0011''"
    using dE [OF m(2)] by (simp add: scheme_defs)
  ultimately show ?thesis using m by simp
qed



subsection \<open>The fixed-width encoding\<close>

lemma be_value_snoc: "be_value (bs @ [b]) = be_value bs * 256 + unat b"
  by (simp add: be_value_def)

lemma be_value_be_bytes: "be_value (be_bytes len n) = n mod 256 ^ len"
proof (induction len arbitrary: n)
  case 0
  show ?case by (simp add: be_value_def)
next
  case (Suc len)
  have "be_value (be_bytes (Suc len) n) = (n div 256) mod 256 ^ len * 256 + n mod 256"
    by (simp add: be_value_snoc Suc unat_of_nat)
  also have "\<dots> = n mod 256 ^ Suc len"
    by (simp add: mod_mult2_eq)
  finally show ?case .
qed

lemma computeEcDSASignature_Inr:
  "ec_sign C (preset (curve (parameters k))) h (key k) = (r, s) \<Longrightarrow>
   (computeEcDSASignature C k h = Inr sg)
     = (r < 2 ^ 256 \<and> s < 2 ^ 256 \<and> sg = toString_hex (be_bytes 32 r @ be_bytes 32 s))"
  by (auto simp: computeEcDSASignature_def toArrayLike_def split: sum.splits)

lemma sample_ecdsa_hex:
  "toString_hex (be_bytes 32 4 @ be_bytes 32 258)
     = ''0000000000000000000000000000000000000000000000000000000000000004''
     @ ''0000000000000000000000000000000000000000000000000000000000000102''"
  by code_simp

lemma sign_ecdsa_Inr:
  assumes eff: "(case sch_opt of None \<Rightarrow> defaultSchema C (algorithm k) | Some s \<Rightarrow> s) = sch"
      and fam: "sch \<in> {ECDSAwithSHA224, ECDSAwithSHA256, ECDSAwithSHA384, ECDSAwithSHA512,
           ECDSAwithSHA3_224, ECDSAwithSHA3_256, ECDSAwithSHA3_384, ECDSAwithSHA3_512,
           ECDSAwithRIPEMD160}"
  shows "(sign C k msg sch_opt pkId = Inr sg) =
     (algorithm k = ECDSA \<and>
      (\<exists>hash. computeHash C k msg sch = Inr hash
         \<and> (\<exists>v. computeEcDSASignature C k hash = Inr v
               \<and> sg = \<lparr>schema = sch, signed = v, publicKeyId = pkId\<rparr>)))"
proof -
  have r: "requiredKeyType sch = Some ECDSA"
    using fam by (auto simp: requiredKeyType_def)
  show ?thesis
    by (auto simp: sign_def eff isSchemaSupported_def r computeSignature_ecdsa [OF fam]
          split: sum.splits)
qed

text \<open>
  Claim C3. Let the scheme that \<open>sign\<close> uses, the one passed or else the default
  of the key's type, be one of the ECDSA schemes. Then a signature that \<open>sign\<close>
  returns carries that scheme, and its string is the hex encoding of 64 bytes, 128
  characters that read back as those bytes: the 32 bytes that hold \<open>r\<close> in
  big-endian order with zeros in front, followed by the 32 bytes that hold \<open>s\<close>
  likewise, whatever \<open>r\<close> and \<open>s\<close> are; its length does not vary. And \<open>sign\<close>
  does return it for an ECDSA key whenever the hash is computed and \<open>r\<close> and \<open>s\<close>
  fit into 32 bytes.
\<close>

theorem sign_ecdsa_fixed_64_bytes:
  assumes eff: "(case sch_opt of None \<Rightarrow> defaultSchema C (algorithm k) | Some s \<Rightarrow> s) = sch"
      and fam: "sch \<in> {ECDSAwithSHA224, ECDSAwithSHA256, ECDSAwithSHA384, ECDSAwithSHA512,
           ECDSAwithSHA3_224, ECDSAwithSHA3_256, ECDSAwithSHA3_384, ECDSAwithSHA3_512,
           ECDSAwithRIPEMD160}"
  shows "(\<forall>sg. sign C k msg sch_opt pkId = Inr sg \<longrightarrow>
           (\<exists>hash r s. computeHash C k msg sch = Inr hash
              \<and> ec_sign C (preset (curve (parameters k))) hash (key k) = (r, s)
              \<and> r < 2 ^ 256 \<and> s < 2 ^ 256
              \<and> schema sg = sch \<and> publicKeyId sg = pkId
              \<and> signed sg = toString_hex (be_bytes 32 r @ be_bytes 32 s)
              \<and> parse_hex (signed sg) = Some (be_bytes 32 r @ be_bytes 32 s)
              \<and> length (be_bytes 32 r) = 32 \<and> be_value (be_bytes 32 r) = r
              \<and> length (be_bytes 32 s) = 32 \<and> be_value (be_bytes 32 s) = s
              \<and> length (be_bytes 32 r @ be_bytes 32 s) = 64
              \<and> length (signed sg) = 128))
       \<and> (\<forall>hash r s. algorithm k = ECDSA \<longrightarrow> computeHash C k msg sch = Inr hash \<longrightarrow>
             ec_sign C (preset (curve (parameters k))) hash (key k) = (r, s) \<longrightarrow>
             r < 2 ^ 256 \<longrightarrow> s < 2 ^ 256 \<longrightarrow>
             sign C k msg sch_opt pkId
               = Inr \<lparr>schema = sch, signed = toString_hex (be_bytes 32 r @ be_bytes 32 s),
                       publicKeyId = pkId\<rparr>)"
proof (intro conjI allI impI)
  fix sg assume "sign C k msg sch_opt pkId = Inr sg"
  then obtain hash v where h: "computeHash C k msg sch = Inr hash"
      and v: "computeEcDSASignature C k hash = Inr v" and sg: "signed sg = v"
      and sc: "schema sg = sch" and pk: "publicKeyId sg = pkId"
    by (auto simp: sign_ecdsa_Inr [OF eff fam])
  obtain r s where rs: "ec_sign C (preset (curve (parameters k))) hash (key k) = (r, s)"
    by (cases "ec_sign C (preset (curve (parameters k))) hash (key k)")
  from v have b: "r < 2 ^ 256" "s < 2 ^ 256"
      and e: "v = toString_hex (be_bytes 32 r @ be_bytes 32 s)"
    by (simp_all add: computeEcDSASignature_Inr [OF rs])
  have vr: "be_value (be_bytes 32 r) = r" and vs: "be_value (be_bytes 32 s) = s"
    using b by (simp_all add: be_value_be_bytes)
  have len: "length (signed sg) = 128"
    by (simp add: sg e length_toString_hex length_be_bytes)
  have rt: "parse_hex (signed sg) = Some (be_bytes 32 r @ be_bytes 32 s)"
    by (simp only: sg e parse_hex_toString_hex)
  from h rs b e sg sc pk vr vs len rt
  show "\<exists>hash r s. computeHash C k msg sch = Inr hash
              \<and> ec_sign C (preset (curve (parameters k))) hash (key k) = (r, s)
              \<and> r < 2 ^ 256 \<and> s < 2 ^ 256
              \<and> schema sg = sch \<and> publicKeyId sg = pkId
              \<and> signed sg = toString_hex (be_bytes 32 r @ be_bytes 32 s)
              \<and> parse_hex (signed sg) = Some (be_bytes 32 r @ be_bytes 32 s)
              \<and> length (be_bytes 32 r) = 32 \<and> be_value (be_bytes 32 r) = r
              \<and> length (be_bytes 32 s) = 32 \<and> be_value (be_bytes 32 s) = s
              \<and> length (be_bytes 32 r @ be_bytes 32 s) = 64
              \<and> length (signed sg) = 128"
    by (simp add: length_be_bytes)
next
  fix hash r s
  assume "algorithm k = ECDSA" "computeHash C k msg sch = Inr hash"
    "ec_sign C (preset (curve (parameters k))) hash (key k) = (r, s)"
    "r < 2 ^ 256" "s < 2 ^ 256"
  then show "sign C k msg sch_opt pkId
               = Inr \<lparr>schema = sch, signed = toString_hex (be_bytes 32 r @ be_bytes 32 s),
                       publicKeyId = pkId\<rparr>"
    by (simp add: sign_ecdsa_Inr [OF eff fam] computeEcDSASignature_Inr)
qed

text \<open>
  The hex message \<open>0011\<close> signed with an ECDSA key, once with the scheme omitted
  and once with a scheme passed.
\<close>

theorem sign_ecdsa_fixed_64_bytes_witness:
  "sign (sample :: unit collaborators)
      \<lparr>key = ''ab'', algorithm = ECDSA, parameters = secp256r1\<rparr> ''0011'' None None
     = Inr \<lparr>schema = ECDSAwithSHA256,
             signed = ''0000000000000000000000000000000000000000000000000000000000000004''
                    @ ''0000000000000000000000000000000000000000000000000000000000000102'',
             publicKeyId = None\<rparr>
   \<and> sign (sample :: unit collaborators)
      \<lparr>key = ''ab'', algorithm = ECDSA, parameters = secp256r1\<rparr> ''0011''
      (Some ECDSAwithSHA3_512) (Some ''id'')
     = Inr \<lparr>schema = ECDSAwithSHA3_512,
             signed = ''0000000000000000000000000000000000000000000000000000000000000004''
                    @ ''0000000000000000000000000000000000000000000000000000000000000102'',
             publicKeyId = Some ''id''\<rparr>
   \<and> length (''0000000000000000000000000000000000000000000000000000000000000004''
             @ ''0000000000000000000000000000000000000000000000000000000000000102'') = 128"
proof -
  let ?C = "sample :: unit collaborators"
  let ?k = "\<lparr>key = ''ab'', algorithm = ECDSA, parameters = secp256r1\<rparr>"
  have eff1: "(case None of None \<Rightarrow> defaultSchema ?C (algorithm ?k) | Some s \<Rightarrow> s)
                = ECDSAwithSHA256"
    by (simp add: sample_def sample_defaultSchema_def)
  have eff2: "(case Some ECDSAwithSHA3_512 of None \<Rightarrow> defaultSchema ?C (algorithm ?k)
                | Some s \<Rightarrow> s) = ECDSAwithSHA3_512"
    by simp
  have fam1: "ECDSAwithSHA256 \<in> {ECDSAwithSHA224, ECDSAwithSHA256, ECDSAwithSHA384,
           ECDSAwithSHA512, ECDSAwithSHA3_224, ECDSAwithSHA3_256, ECDSAwithSHA3_384,
           ECDSAwithSHA3_512, ECDSAwithRIPEMD160}"
    by simp
  have fam2: "ECDSAwithSHA3_512 \<in> {ECDSAwithSHA224, ECDSAwithSHA256, ECDSAwithSHA384,
           ECDSAwithSHA512, ECDSAwithSHA3_224, ECDSAwithSHA3_256, ECDSAwithSHA3_384,
           ECDSAwithSHA3_512, ECDSAwithRIPEMD160}"
    by simp
  have a: "algorithm ?k = ECDSA"
    by simp
  have h1: "computeHash ?C ?k ''0011'' ECDSAwithSHA256 = Inr ''0011''"
    by (simp add: sample_def)
  have h2: "computeHash ?C ?k ''0011'' ECDSAwithSHA3_512 = Inr ''0011''"
    by (simp add: sample_def)
  have e: "ec_sign ?C (preset (curve (parameters ?k))) ''0011'' (key ?k) = (4, 258)"
    by (simp add: sample_def)
  have b: "(4::nat) < 2 ^ 256" "(258::nat) < 2 ^ 256"
    by simp_all
  show ?thesis
    using sign_ecdsa_fixed_64_bytes [OF eff1 fam1, THEN conjunct2, rule_format, OF a h1 e b]
      sign_ecdsa_fixed_64_bytes [OF eff2 fam2, THEN conjunct2, rule_format, OF a h2 e b]
    by (simp add: sample_ecdsa_hex)
qed

subsection \<open>The SM2 encoding\<close>

lemma str2hexstr_append: "str2hexstr (a @ b) = str2hexstr a @ str2hexstr b"
  by (simp add: str2hexstr_def toString_hex_def)

lemma str2hexstr_NUL: "str2hexstr [CHR 0x00] = ''00''"
  by (simp add: str2hexstr_def toString_hex_def byte2hex_def hexDigit_def)

lemma parse_hex_str2hexstr: "parse_hex (str2hexstr x) = Some (map (\<lambda>c. of_nat (of_char c)) x)"
  by (simp add: str2hexstr_def parse_hex_toString_hex)

lemma sign_sm2_Inr:
  assumes eff: "(case sch_opt of None \<Rightarrow> defaultSchema C (algorithm k) | Some s \<Rightarrow> s)
                  = SM2withSM3"
  shows "(sign C k msg sch_opt pkId = Inr sg) =
     (algorithm k = SM2 \<and>
      (\<exists>hash. computeHash C k msg SM2withSM3 = Inr hash
         \<and> sg = \<lparr>schema = SM2withSM3, signed = computeSM2Signature C k hash,
                  publicKeyId = pkId\<rparr>))"
proof -
  have r: "requiredKeyType SM2withSM3 = Some SM2"
    by (simp add: requiredKeyType_def scheme_defs)
  show ?thesis
    by (auto simp: sign_def eff isSchemaSupported_def r computeSignature_sm2
          split: sum.splits)
qed

text \<open>
  Claim C4. Let the scheme that \<open>sign\<close> uses, the one passed or else the default
  of the key's type, be SM2withSM3. Then a signature that \<open>sign\<close> returns carries
  that scheme, and its string is the hex encoding of the SM2 identity string
  followed by a NUL character (a prefix that reads back as the bytes of the identity
  and a zero byte, the NUL being \<open>00\<close>), then the strings \<open>r\<close> and \<open>s\<close> of the
  SM2 signer as they are, with no padding; and \<open>sign\<close> does return it for an SM2
  key whenever the hash is computed.
\<close>

theorem sign_sm2_encoding:
  assumes eff: "(case sch_opt of None \<Rightarrow> defaultSchema C (algorithm k) | Some s \<Rightarrow> s)
                  = SM2withSM3"
  shows "(\<forall>sg. sign C k msg sch_opt pkId = Inr sg \<longrightarrow>
      (\<exists>hash r s. computeHash C k msg SM2withSM3 = Inr hash
         \<and> sm2_sign C (key k) (hexstring2ab C hash) = (r, s)
         \<and> schema sg = SM2withSM3 \<and> publicKeyId sg = pkId
         \<and> signed sg = str2hexstr (DEFAULT_SM2_ID C @ [CHR 0x00]) @ r @ s
         \<and> signed sg = str2hexstr (DEFAULT_SM2_ID C) @ ''00'' @ r @ s
         \<and> parse_hex (str2hexstr (DEFAULT_SM2_ID C @ [CHR 0x00]))
             = Some (map (\<lambda>c. of_nat (of_char c)) (DEFAULT_SM2_ID C) @ [0])))
   \<and> (\<forall>hash r s. algorithm k = SM2 \<longrightarrow> computeHash C k msg SM2withSM3 = Inr hash \<longrightarrow>
         sm2_sign C (key k) (hexstring2ab C hash) = (r, s) \<longrightarrow>
         sign C k msg sch_opt pkId
           = Inr \<lparr>schema = SM2withSM3,
                   signed = str2hexstr (DEFAULT_SM2_ID C @ [CHR 0x00]) @ r @ s,
                   publicKeyId = pkId\<rparr>)"
proof (intro conjI allI impI)
  fix sg assume "sign C k msg sch_opt pkId = Inr sg"
  then obtain hash where h: "computeHash C k msg SM2withSM3 = Inr hash"
      and sg: "sg = \<lparr>schema = SM2withSM3, signed = computeSM2Signature C k hash,
                     publicKeyId = pkId\<rparr>"
    by (auto simp: sign_sm2_Inr [OF eff])
  obtain r s where rs: "sm2_sign C (key k) (hexstring2ab C hash) = (r, s)"
    by (cases "sm2_sign C (key k) (hexstring2ab C hash)")
  have v: "signed sg = str2hexstr (DEFAULT_SM2_ID C @ [CHR 0x00]) @ r @ s"
    by (simp add: sg computeSM2Signature_def rs)
  have rt: "parse_hex (str2hexstr (DEFAULT_SM2_ID C @ [CHR 0x00]))
             = Some (map (\<lambda>c. of_nat (of_char c)) (DEFAULT_SM2_ID C) @ [0])"
    by (simp add: parse_hex_str2hexstr)
  from h rs v rt
  show "\<exists>hash r s. computeHash C k msg SM2withSM3 = Inr hash
         \<and> sm2_sign C (key k) (hexstring2ab C hash) = (r, s)
         \<and> schema sg = SM2withSM3 \<and> publicKeyId sg = pkId
         \<and> signed sg = str2hexstr (DEFAULT_SM2_ID C @ [CHR 0x00]) @ r @ s
         \<and> signed sg = str2hexstr (DEFAULT_SM2_ID C) @ ''00'' @ r @ s
         \<and> parse_hex (str2hexstr (DEFAULT_SM2_ID C @ [CHR 0x00]))
             = Some (map (\<lambda>c. of_nat (of_char c)) (DEFAULT_SM2_ID C) @ [0])"
    by (simp add: sg str2hexstr_append str2hexstr_NUL)
next
  fix hash r s
  assume "algorithm k = SM2" "computeHash C k msg SM2withSM3 = Inr hash"
    "sm2_sign C (key k) (hexstring2ab C hash) = (r, s)"
  then show "sign C k msg sch_opt pkId
           = Inr \<lparr>schema = SM2withSM3,
                   signed = str2hexstr (DEFAULT_SM2_ID C @ [CHR 0x00]) @ r @ s,
                   publicKeyId = pkId\<rparr>"
    by (simp add: sign_sm2_Inr [OF eff] computeSM2Signature_def)
qed

theorem sign_sm2_encoding_witness:
  "sign (sample :: unit collaborators)
      \<lparr>key = ''ab'', algorithm = SM2, parameters = secp256r1\<rparr> ''0011'' None None
     = Inr \<lparr>schema = SM2withSM3,
             signed = ''31323334353637383132333435363738'' @ ''00'' @ ''1f'' @ ''abc'',
             publicKeyId = None\<rparr>
   \<and> sign (sample :: unit collaborators)
      \<lparr>key = ''ab'', algorithm = SM2, parameters = secp256r1\<rparr> ''0011'' (Some SM2withSM3)
      (Some ''id'')
     = Inr \<lparr>schema = SM2withSM3,
             signed = ''31323334353637383132333435363738'' @ ''00'' @ ''1f'' @ ''abc'',
             publicKeyId = Some ''id''\<rparr>"
proof -
  let ?C = "sample :: unit collaborators"
  let ?k = "\<lparr>key = ''ab'', algorithm = SM2, parameters = secp256r1\<rparr>"
  have eff1: "(case None of None \<Rightarrow> defaultSchema ?C (algorithm ?k) | Some s \<Rightarrow> s)
                = SM2withSM3"
    by (simp add: sample_def sample_defaultSchema_def)
  have eff2: "(case Some SM2withSM3 of None \<Rightarrow> defaultSchema ?C (algorithm ?k)
                | Some s \<Rightarrow> s) = SM2withSM3"
    by simp
  have a: "algorithm ?k = SM2"
    by simp
  have h: "computeHash ?C ?k ''0011'' SM2withSM3 = Inr ''0011''"
    by (simp add: sample_def)
  have e: "sm2_sign ?C (key ?k) (hexstring2ab ?C ''0011'') = (''1f'', ''abc'')"
    by (simp add: sample_def)
  have i: "str2hexstr (DEFAULT_SM2_ID ?C @ [CHR 0x00])
             = ''3132333435363738313233343536373800''"
    by (simp add: sample_def str2hexstr_def toString_hex_def byte2hex_def hexDigit_def)
  show ?thesis
    using sign_sm2_encoding [OF eff1, THEN conjunct2, rule_format, OF a h e]
      sign_sm2_encoding [OF eff2, THEN conjunct2, rule_format, OF a h e]
    by (simp add: i)
qed


section \<open>Encryption with a passphrase\<close>

lemma getPublicKey_sample_SM2:
  "getPublicKey (sample :: unit collaborators) \<lparr>key = x, algorithm = SM2, parameters = p\<rparr>
     = Inr \<lparr>key = KeyHex (''03'' @ x), algorithm = SM2, parameters = p\<rparr>"
  by (simp add: getPublicKey_def getSM2PublicKey_def sample_def)

text \<open>
  Claim C1. Whenever \<open>decrypt\<close> returns a key, that key is the candidate built from
  the decrypted bytes with the key type and parameters of the encrypted key, its
  public key has been derived, and the anchor embedded in the encrypted key agrees
  with that public key. Whenever the public key of the candidate is derived and
  disagrees with the embedded anchor, \<open>decrypt\<close> fails with the decryption error
  and returns no key.
\<close>

theorem decrypt_checks_public_key_anchor:
  "(\<forall>k'. decrypt C k pw params = Inr k' \<longrightarrow>
      k' = \<lparr>key = scrypt_decrypt C (key k) pw params, algorithm = algorithm k,
             parameters = parameters k\<rparr>
      \<and> (\<exists>pub. getPublicKey C k' = Inr pub
             \<and> anchor_embedded C (key k) = anchor_of_publicKey C (key pub)))
   \<and> (\<forall>pub. getPublicKey C \<lparr>key = scrypt_decrypt C (key k) pw params,
                              algorithm = algorithm k, parameters = parameters k\<rparr> = Inr pub
         \<longrightarrow> anchor_embedded C (key k) \<noteq> anchor_of_publicKey C (key pub)
         \<longrightarrow> decrypt C k pw params = Inl DecryptionError)"
  by (auto simp: decrypt_def checkDecrypted_def Let_def split: sum.splits if_splits)

theorem decrypt_checks_public_key_anchor_witness:
  "decrypt (sample :: unit collaborators)
      \<lparr>key = ''03abdcba'', algorithm = SM2, parameters = secp256r1\<rparr> ''pwx'' None
     = Inl DecryptionError
   \<and> decrypt (sample :: unit collaborators)
      \<lparr>key = ''03abdcba'', algorithm = SM2, parameters = secp256r1\<rparr> ''pw'' None
     = Inr \<lparr>key = ''abcd'', algorithm = SM2, parameters = secp256r1\<rparr>
   \<and> anchor_embedded (sample :: unit collaborators) ''03abdcba''
     = anchor_of_publicKey (sample :: unit collaborators) (KeyHex ''03abcd'')"
proof -
  let ?C = "sample :: unit collaborators"
  let ?e = "\<lparr>key = ''03abdcba'', algorithm = SM2, parameters = secp256r1\<rparr>"
  note t = decrypt_checks_public_key_anchor [where C = ?C and k = ?e and params = None]
  have d: "scrypt_decrypt ?C ''03abdcba'' ''pwx'' None = ''dcba''"
    by (simp add: sample_def)
  have p: "getPublicKey ?C \<lparr>key = scrypt_decrypt ?C (key ?e) ''pwx'' None,
              algorithm = algorithm ?e, parameters = parameters ?e\<rparr>
             = Inr \<lparr>key = KeyHex ''03dcba'', algorithm = SM2, parameters = secp256r1\<rparr>"
    by (simp add: d getPublicKey_sample_SM2)
  have n: "anchor_embedded ?C (key ?e)
             \<noteq> anchor_of_publicKey ?C
                 (key \<lparr>key = KeyHex ''03dcba'', algorithm = SM2, parameters = secp256r1\<rparr>)"
    by (simp add: sample_def sample_anchor_def)
  have wrong: "decrypt ?C ?e ''pwx'' None = Inl DecryptionError"
    using t [where pw = "''pwx''", THEN conjunct2, rule_format, OF p n] .
  have right: "decrypt ?C ?e ''pw'' None
                 = Inr \<lparr>key = ''abcd'', algorithm = SM2, parameters = secp256r1\<rparr>"
    by (simp add: decrypt_def checkDecrypted_def getPublicKey_sample_SM2 Let_def)
       (simp add: sample_def sample_anchor_def)
  have "anchor_embedded ?C ''03abdcba'' = anchor_of_publicKey ?C (KeyHex ''03abcd'')"
    using t [where pw = "''pw''", THEN conjunct1, rule_format, OF right]
    by (simp add: getPublicKey_sample_SM2)
  with wrong right show ?thesis by simp
qed






end
